theory Spec2Isabelle
  imports Complex_Main "HOL-Library.Word" "HOL-Library.Multiset" "HOL-Library.Monad_Syntax"
begin

section \<open>The NAM audio effect: data model\<close>

text \<open>
  The development follows the second plugin revision of \<^verbatim>\<open>src/dsp/nam_plugin.cpp\<close>
  (the one with the cabinet impulse response). C \<^verbatim>\<open>int\<close> variables are \<^typ>\<open>int\<close>: every
  counter of the code stays between \<open>-1\<close> and a frame count or a buffer length, so no
  wrap-around can occur. \<^verbatim>\<open>int16_t\<close> is \<^typ>\<open>16 word\<close>, read with \<^const>\<open>sint\<close>.
  \<^verbatim>\<open>float\<close> values are modelled by exact numbers (\<^typ>\<open>real\<close>); rounding, infinities and
  NaN are outside the model. The loops of the convolution are polymorphic in the sample
  type and use only \<open>0\<close>, \<open>+\<close> and \<open>*\<close> in the order of the source.

  An access outside a buffer, a use of a released buffer and a float-to-integer conversion
  outside the target range are undefined behaviour in C: the functions below return
  \<^const>\<open>None\<close> there.
\<close>

subsection \<open>Constants\<close>

definition MAX_MODELS :: int where "MAX_MODELS = 256"
definition MAX_CABS :: int where "MAX_CABS = 256"
definition MAX_NAME_LEN :: int where "MAX_NAME_LEN = 128"
definition MAX_PATH_LEN :: int where "MAX_PATH_LEN = 512"
definition FRAMES_PER_BLOCK :: int where "FRAMES_PER_BLOCK = 128"
definition MAX_IR_LEN :: int where "MAX_IR_LEN = 8192"

subsection \<open>Arrays and heap buffers\<close>

text \<open>Checked array access: \<open>rd a i\<close> is \<^verbatim>\<open>a[i]\<close>, \<open>wr a i v\<close> is \<^verbatim>\<open>a[i] = v\<close>.\<close>

definition rd :: "'a list \<Rightarrow> int \<Rightarrow> 'a option" where
  "rd a i = (if 0 \<le> i \<and> i < int (length a) then Some (a ! nat i) else None)"

definition wr :: "'a list \<Rightarrow> int \<Rightarrow> 'a \<Rightarrow> 'a list option" where
  "wr a i v = (if 0 \<le> i \<and> i < int (length a) then Some (a[nat i := v]) else None)"

text \<open>
  The buffers obtained from \<^verbatim>\<open>calloc\<close> live in a heap: cell \<open>a\<close> holds the contents of the
  buffer at address \<open>a\<close>, or \<^const>\<open>None\<close> once it is released. A pointer is an
  \<open>addr option\<close>, \<^const>\<open>None\<close> being the null pointer. Addresses are not reused.
\<close>

type_synonym addr = nat
type_synonym 'a heap = "'a list option list"

definition deref :: "'a heap \<Rightarrow> addr \<Rightarrow> 'a list option" where
  "deref h a = (if a < length h then h ! a else None)"

text \<open>\<^verbatim>\<open>calloc(n, sizeof(float))\<close>; \<open>ok\<close> tells whether the allocator finds the memory.\<close>

definition calloc :: "bool \<Rightarrow> 'a::zero heap \<Rightarrow> int \<Rightarrow> addr option \<times> 'a heap" where
  "calloc ok h n =
     (if ok then (Some (length h), h @ [Some (replicate (nat n) 0)]) else (None, h))"

text \<open>\<^verbatim>\<open>free(p)\<close>: nothing for the null pointer, undefined for a buffer that is not live.\<close>

definition free :: "'a heap \<Rightarrow> addr option \<Rightarrow> 'a heap option" where
  "free h p =
     (case p of
        None \<Rightarrow> Some h
      | Some a \<Rightarrow> (case deref h a of None \<Rightarrow> None | Some b \<Rightarrow> Some (h[a := None])))"

text \<open>\<^verbatim>\<open>p[i] = v\<close> through a pointer into the heap.\<close>

definition heap_wr :: "'a heap \<Rightarrow> addr \<Rightarrow> int \<Rightarrow> 'a \<Rightarrow> 'a heap option" where
  "heap_wr h a i v =
     (case deref h a of
        None \<Rightarrow> None
      | Some b \<Rightarrow> (case wr b i v of None \<Rightarrow> None | Some b' \<Rightarrow> Some (h[a := Some b'])))"

subsection \<open>The instance\<close>

text \<open>
  \<^verbatim>\<open>nam_instance_t\<close>. \<open>'m\<close> is the state of a \<^verbatim>\<open>NeuralAudio::NeuralModel\<close>; a model pointer
  is an \<open>'m option\<close>. The character arrays hold C strings, modelled by their contents.
\<close>

record 'm nam_instance =
  module_dir :: string
  model :: "'m option"
  pending_model :: "'m option"
  loading :: bool
  model_path :: string
  model_name :: string
  model_count :: int
  model_names :: "string list"
  model_paths :: "string list"
  current_model_index :: int
  cab_ir :: "addr option"
  cab_ir_len :: int
  cab_history :: "addr option"
  cab_hist_pos :: int
  cab_bypass :: bool
  cab_name :: string
  cab_count :: int
  cab_names :: "string list"
  cab_paths :: "string list"
  current_cab_index :: int
  input_level :: real
  output_level :: real
  input_gain :: real
  output_gain :: real
  mono_in :: "real list"
  mono_out :: "real list"

text \<open>
  The background loader threads started by \<^verbatim>\<open>pthread_create\<close>, each at a point of
  \<^verbatim>\<open>model_loader_thread\<close>: before \<^verbatim>\<open>CreateFromFile\<close>, holding its result before the store
  into \<^verbatim>\<open>pending_model\<close>, before the store that clears \<^verbatim>\<open>loading\<close>, and returned.
\<close>

datatype 'm loader = Creating | Publishing "'m option" | Clearing | Returned

text \<open>What a plugin call can reach: the instance, the heap and the loader threads.\<close>

record 'm world =
  inst :: "'m nam_instance"
  heap :: "real heap"
  loaders :: "'m loader list"

section \<open>Helpers\<close>

text \<open>\<^verbatim>\<open>knob_to_gain\<close>: a knob position to a dB value between -24 and +12, then to a linear gain.\<close>

definition knob_to_gain :: "real \<Rightarrow> real" where
  "knob_to_gain knob = (let db = - 24 + knob * 36 in 10 powr (db / 20))"

definition clampf :: "real \<Rightarrow> real \<Rightarrow> real \<Rightarrow> real" where
  "clampf v lo hi = (if v < lo then lo else (if v > hi then hi else v))"

text \<open>The conversions between \<^verbatim>\<open>int16_t\<close> and \<^verbatim>\<open>float\<close>; the cast to \<^verbatim>\<open>int16_t\<close> truncates
  towards zero and is undefined when the truncated value does not fit.\<close>

definition int16_to_float :: "16 word \<Rightarrow> real" where
  "int16_to_float w = real_of_int (sint w)"

definition float_to_int16 :: "real \<Rightarrow> 16 word option" where
  "float_to_int16 x =
     (let t = (if 0 \<le> x then \<lfloor>x\<rfloor> else \<lceil>x\<rceil>)
      in if - 32768 \<le> t \<and> t \<le> 32767 then Some (word_of_int t) else None)"

section \<open>The convolution engine\<close>

text \<open>The inner loop of \<^verbatim>\<open>apply_cab_ir\<close>: \<open>k\<close> walks the IR forward, \<open>p\<close> walks the history
  backward and wraps to \<open>hist_len - 1\<close> below 0; \<open>acc\<close> is the local \<^verbatim>\<open>sum\<close>.\<close>

function conv_sum ::
  "'a::{plus,times} list \<Rightarrow> 'a list \<Rightarrow> int \<Rightarrow> int \<Rightarrow> int \<Rightarrow> int \<Rightarrow> 'a \<Rightarrow> 'a option" where
  "conv_sum ir hist ir_len hist_len k p acc =
     (if k < ir_len then
        (case rd ir k of
           None \<Rightarrow> None
         | Some c \<Rightarrow>
             (case rd hist p of
                None \<Rightarrow> None
              | Some x \<Rightarrow>
                  conv_sum ir hist ir_len hist_len (k + 1)
                    (if p - 1 < 0 then hist_len - 1 else p - 1) (acc + c * x)))
      else Some acc)"
  by pat_completeness auto
termination
  by (relation "measure (\<lambda>(ir, hist, ir_len, hist_len, k, p, acc). nat (ir_len - k))") auto

declare conv_sum.simps [simp del]

text \<open>The outer loop of \<^verbatim>\<open>apply_cab_ir\<close>; \<open>ir\<close> and \<open>hist\<close> are the two local pointers.\<close>

function cab_loop ::
  "'a::{zero,plus,times} heap \<Rightarrow> addr \<Rightarrow> addr \<Rightarrow> int \<Rightarrow> int \<Rightarrow> 'a list \<Rightarrow> int \<Rightarrow> int \<Rightarrow> int
     \<Rightarrow> ('a heap \<times> 'a list \<times> int) option" where
  "cab_loop h ir hist ir_len hist_len audio frames i pos =
     (if i < frames then
        (case rd audio i of
           None \<Rightarrow> None
         | Some x \<Rightarrow>
             (case heap_wr h hist pos x of
                None \<Rightarrow> None
              | Some h1 \<Rightarrow>
                  (case deref h1 ir of
                     None \<Rightarrow> None
                   | Some irv \<Rightarrow>
                       (case deref h1 hist of
                          None \<Rightarrow> None
                        | Some histv \<Rightarrow>
                            (case conv_sum irv histv ir_len hist_len 0 pos 0 of
                               None \<Rightarrow> None
                             | Some acc \<Rightarrow>
                                 (case wr audio i acc of
                                    None \<Rightarrow> None
                                  | Some audio1 \<Rightarrow>
                                      cab_loop h1 ir hist ir_len hist_len audio1 frames (i + 1)
                                        (if pos + 1 \<ge> hist_len then 0 else pos + 1)))))))
      else Some (h, audio, pos))"
  by pat_completeness auto
termination
  by (relation "measure (\<lambda>(h, ir, hist, ir_len, hist_len, audio, frames, i, pos). nat (frames - i))")
    auto

declare cab_loop.simps [simp del]

definition apply_cab_ir ::
  "real heap \<Rightarrow> 'm nam_instance \<Rightarrow> real list \<Rightarrow> int
     \<Rightarrow> (real heap \<times> 'm nam_instance \<times> real list) option" where
  "apply_cab_ir h i audio frames =
     (if cab_ir i = None \<or> cab_ir_len i \<le> 0 \<or> cab_history i = None then Some (h, i, audio)
      else
        (case cab_loop h (the (cab_ir i)) (the (cab_history i)) (cab_ir_len i)
                (cab_ir_len i + FRAMES_PER_BLOCK) audio frames 0 (cab_hist_pos i) of
           None \<Rightarrow> None
         | Some (h', audio', pos) \<Rightarrow> Some (h', i\<lparr>cab_hist_pos := pos\<rparr>, audio')))"

section \<open>The audio pipeline\<close>

text \<open>The first loop of \<^verbatim>\<open>v2_process_block\<close>: stereo \<^verbatim>\<open>int16\<close> to mono \<^verbatim>\<open>float\<close>.\<close>

function deinterleave ::
  "16 word list \<Rightarrow> real \<Rightarrow> real list \<Rightarrow> int \<Rightarrow> int \<Rightarrow> real list option" where
  "deinterleave audio_inout ig mono_buf n i =
     (if i < n then
        (case rd audio_inout (i * 2) of
           None \<Rightarrow> None
         | Some a \<Rightarrow>
             (case rd audio_inout (i * 2 + 1) of
                None \<Rightarrow> None
              | Some b \<Rightarrow>
                  (case wr mono_buf i
                          ((int16_to_float a / 32768 + int16_to_float b / 32768) * 0.5 * ig) of
                     None \<Rightarrow> None
                   | Some mono1 \<Rightarrow> deinterleave audio_inout ig mono1 n (i + 1))))
      else Some mono_buf)"
  by pat_completeness auto
termination
  by (relation "measure (\<lambda>(audio_inout, ig, mono_buf, n, i). nat (n - i))") auto

declare deinterleave.simps [simp del]

text \<open>The last loop of \<^verbatim>\<open>v2_process_block\<close>: mono \<^verbatim>\<open>float\<close> back to stereo \<^verbatim>\<open>int16\<close>.\<close>

function interleave ::
  "real list \<Rightarrow> real \<Rightarrow> 16 word list \<Rightarrow> int \<Rightarrow> int \<Rightarrow> 16 word list option" where
  "interleave mono_buf og audio_inout n i =
     (if i < n then
        (case rd mono_buf i of
           None \<Rightarrow> None
         | Some x \<Rightarrow>
             (case float_to_int16 (clampf (x * og) (- 1) 1 * 32767) of
                None \<Rightarrow> None
              | Some sample \<Rightarrow>
                  (case wr audio_inout (i * 2) sample of
                     None \<Rightarrow> None
                   | Some audio1 \<Rightarrow>
                       (case wr audio1 (i * 2 + 1) sample of
                          None \<Rightarrow> None
                        | Some audio2 \<Rightarrow> interleave mono_buf og audio2 n (i + 1)))))
      else Some audio_inout)"
  by pat_completeness auto
termination
  by (relation "measure (\<lambda>(mono_buf, og, audio_inout, n, i). nat (n - i))") auto

declare interleave.simps [simp del]

text \<open>
  \<^verbatim>\<open>model->Process(input, output, (size_t)n)\<close>, a call into the NeuralAudio library. The
  library is a parameter \<open>proc\<close>: from the state of the model, the contents of the two
  arrays and \<open>numSamples\<close> it gives the new state and the contents it leaves in the output
  array, or \<^const>\<open>None\<close> when the call does not return. An array keeps its size. The cast of
  \<open>n\<close> to the 64-bit \<^verbatim>\<open>size_t\<close> wraps.
\<close>

type_synonym 'm neural_process = "'m \<Rightarrow> real list \<Rightarrow> real list \<Rightarrow> nat \<Rightarrow> ('m \<times> real list) option"

definition model_Process ::
  "'m neural_process \<Rightarrow> 'm \<Rightarrow> real list \<Rightarrow> real list \<Rightarrow> int \<Rightarrow> ('m \<times> real list) option" where
  "model_Process proc m input output n =
     (case proc m input output (nat (n mod 2 ^ 64)) of
        None \<Rightarrow> None
      | Some (m', ys) \<Rightarrow> Some (m', take (length output) ys @ drop (length ys) output))"

text \<open>The first statement of \<^verbatim>\<open>v2_process_block\<close>: a model found in the pending slot becomes
  the active one and the slot is cleared (the old model is deleted).\<close>

definition activate_pending :: "'m nam_instance \<Rightarrow> 'm nam_instance" where
  "activate_pending i =
     (case pending_model i of
        None \<Rightarrow> i
      | Some pending \<Rightarrow> i\<lparr>model := Some pending, pending_model := None\<rparr>)"

text \<open>\<^verbatim>\<open>v2_process_block\<close>. The instance pointer is \<^const>\<open>None\<close> when it is null.\<close>

definition v2_process_block ::
  "'m neural_process \<Rightarrow> 'm world option \<Rightarrow> 16 word list \<Rightarrow> int
     \<Rightarrow> ('m world option \<times> 16 word list) option" where
  "v2_process_block proc instance audio_inout frames =
     (case instance of
        None \<Rightarrow> Some (None, audio_inout)
      | Some w \<Rightarrow>
          (let i1 = activate_pending (inst w)
           in case model i1 of
                None \<Rightarrow> Some (Some (w\<lparr>inst := i1\<rparr>), audio_inout)
              | Some m \<Rightarrow>
                  (let n = (if frames > FRAMES_PER_BLOCK then FRAMES_PER_BLOCK else frames) in
                   do {
                     mi \<leftarrow> deinterleave audio_inout (input_gain i1) (mono_in i1) n 0;
                     (m', mo) \<leftarrow> model_Process proc m mi (mono_out i1) n;
                     let i2 = i1\<lparr>model := Some m', mono_in := mi, mono_out := mo\<rparr>;
                     (h3, i3) \<leftarrow>
                       (if \<not> cab_bypass i2 \<and> cab_ir i2 \<noteq> None then
                          do {
                            (h', i', audio') \<leftarrow> apply_cab_ir (heap w) i2 (mono_out i2) n;
                            Some (h', i'\<lparr>mono_out := audio'\<rparr>)
                          }
                        else Some (heap w, i2));
                     audio' \<leftarrow> interleave (mono_out i3) (output_gain i3) audio_inout n 0;
                     Some (Some (w\<lparr>inst := i3, heap := h3\<rparr>), audio')
                   })))"

text \<open>
  The instance as \<^verbatim>\<open>v2_create_instance\<close> has it after \<^verbatim>\<open>calloc\<close> and the assignments of the
  defaults, before the directories are scanned: \<^verbatim>\<open>calloc\<close> zeroes every field.
\<close>

definition fresh_instance :: "string \<Rightarrow> 'm nam_instance" where
  "fresh_instance dir =
     \<lparr> module_dir = take (nat (MAX_PATH_LEN - 1)) dir,
       model = None, pending_model = None, loading = False,
       model_path = [], model_name = [],
       model_count = 0,
       model_names = replicate (nat MAX_MODELS) [], model_paths = replicate (nat MAX_MODELS) [],
       current_model_index = - 1,
       cab_ir = None, cab_ir_len = 0, cab_history = None, cab_hist_pos = 0,
       cab_bypass = False, cab_name = [],
       cab_count = 0,
       cab_names = replicate (nat MAX_CABS) [], cab_paths = replicate (nat MAX_CABS) [],
       current_cab_index = - 1,
       input_level = 0.5, output_level = 0.5,
       input_gain = knob_to_gain 0.5, output_gain = knob_to_gain 0.5,
       mono_in = replicate (nat FRAMES_PER_BLOCK) 0,
       mono_out = replicate (nat FRAMES_PER_BLOCK) 0 \<rparr>"


section \<open>The convolution as the specification words it\<close>






text \<open>An instance with a two-sample IR at address 0 and its history at address 1.\<close>

definition cab_example :: "unit nam_instance" where
  "cab_example = (fresh_instance ''/data/nam'')
     \<lparr>cab_ir := Some 0, cab_ir_len := 2, cab_history := Some 1\<rparr>"


section \<open>Strings and the asset catalog\<close>

text \<open>
  A C string is modelled by its characters before the terminator. \<^verbatim>\<open>strrchr\<close> gives the
  position of the last occurrence of a character. \<^verbatim>\<open>tolower\<close> and \<^verbatim>\<open>strcasecmp\<close> are the
  functions of the C library in the C locale, on the codes of the characters; at the end
  of a string the terminator, code 0, is compared.
\<close>

fun strrchr :: "string \<Rightarrow> char \<Rightarrow> nat option" where
  "strrchr [] c = None"
| "strrchr (x # xs) c =
     (case strrchr xs c of
        Some i \<Rightarrow> Some (Suc i)
      | None \<Rightarrow> (if x = c then Some 0 else None))"

definition tolower :: "int \<Rightarrow> int" where
  "tolower c = (if 65 \<le> c \<and> c \<le> 90 then c + 32 else c)"

fun strcasecmp :: "string \<Rightarrow> string \<Rightarrow> int" where
  "strcasecmp [] [] = 0"
| "strcasecmp [] (y # ys) = 0 - tolower (of_char y)"
| "strcasecmp (x # xs) [] = tolower (of_char x) - 0"
| "strcasecmp (x # xs) (y # ys) =
     (if tolower (of_char x) = tolower (of_char y) then strcasecmp xs ys
      else tolower (of_char x) - tolower (of_char y))"

text \<open>\<^verbatim>\<open>path_to_name\<close>: the path without its directory and its extension, cut to fit a buffer
  of \<open>name_len\<close> characters.\<close>

definition path_to_name :: "string \<Rightarrow> int \<Rightarrow> string" where
  "path_to_name path name_len =
     (let base = (case strrchr path CHR ''/'' of Some slash \<Rightarrow> drop (slash + 1) path | None \<Rightarrow> path);
          len = (case strrchr base CHR ''.'' of Some dot \<Rightarrow> int dot | None \<Rightarrow> int (length base));
          len = (if len \<ge> name_len then name_len - 1 else len)
      in take (nat len) base)"

definition is_model_file :: "string \<Rightarrow> bool" where
  "is_model_file name =
     (case strrchr name CHR ''.'' of
        None \<Rightarrow> False
      | Some dot \<Rightarrow>
          strcasecmp (drop dot name) ''.nam'' = 0 \<or>
          strcasecmp (drop dot name) ''.json'' = 0 \<or>
          strcasecmp (drop dot name) ''.aidax'' = 0)"

definition is_cab_file :: "string \<Rightarrow> bool" where
  "is_cab_file name =
     (case strrchr name CHR ''.'' of
        None \<Rightarrow> False
      | Some dot \<Rightarrow>
          strcasecmp (drop dot name) ''.wav'' = 0 \<or>
          strcasecmp (drop dot name) ''.ir'' = 0)"

text \<open>
  What the calls depend on outside the program: the entries \<^verbatim>\<open>readdir\<close> gives for a
  directory, in its order (\<^const>\<open>None\<close> when \<^verbatim>\<open>opendir\<close> fails), the samples the WAV parser
  extracts from a file, whether the allocations of \<^verbatim>\<open>v2_create_instance\<close> and \<^verbatim>\<open>load_cab\<close>
  find memory, whether \<^verbatim>\<open>pthread_create\<close> starts the thread, \<^verbatim>\<open>atof\<close>, and the text that
  \<^verbatim>\<open>printf\<close> gives for a \<^verbatim>\<open>float\<close> under \<^verbatim>\<open>%.2f\<close>.
\<close>

record env =
  dir_entries :: "string \<Rightarrow> string list option"
  wav_samples :: "string \<Rightarrow> real list"
  inst_alloc :: bool
  ir_alloc :: bool
  hist_alloc :: bool
  thread_start :: bool
  atof :: "string \<Rightarrow> real"
  fmt_2f :: "real \<Rightarrow> string"

text \<open>\<^verbatim>\<open>snprintf(buf, cap, "%s/%s", a, b)\<close>: the output is cut to \<open>cap - 1\<close> characters.\<close>

definition snprintf_path :: "int \<Rightarrow> string \<Rightarrow> string \<Rightarrow> string" where
  "snprintf_path cap a b = take (nat (cap - 1)) (a @ ''/'' @ b)"

text \<open>The \<^verbatim>\<open>readdir\<close> loop of \<^verbatim>\<open>scan_directory\<close>, over the entries still to come.\<close>

fun scan_entries ::
  "string \<Rightarrow> string list \<Rightarrow> string list \<Rightarrow> string list \<Rightarrow> int \<Rightarrow> (string \<Rightarrow> bool) \<Rightarrow> int
     \<Rightarrow> (int \<times> string list \<times> string list) option" where
  "scan_entries dir_path [] names paths max_entries filter_fn cnt = Some (cnt, names, paths)"
| "scan_entries dir_path (d_name # rest) names paths max_entries filter_fn cnt =
     (if cnt < max_entries then
        (if (case d_name of [] \<Rightarrow> False | c # cs \<Rightarrow> c = CHR ''.'') then
           scan_entries dir_path rest names paths max_entries filter_fn cnt
         else if \<not> filter_fn d_name then
           scan_entries dir_path rest names paths max_entries filter_fn cnt
         else
           (case wr paths cnt (snprintf_path MAX_PATH_LEN dir_path d_name) of
              None \<Rightarrow> None
            | Some paths1 \<Rightarrow>
                (case wr names cnt (path_to_name d_name MAX_NAME_LEN) of
                   None \<Rightarrow> None
                 | Some names1 \<Rightarrow>
                     scan_entries dir_path rest names1 paths1 max_entries filter_fn (cnt + 1))))
      else Some (cnt, names, paths))"

text \<open>The two sorting loops of \<^verbatim>\<open>scan_directory\<close>; a swap exchanges the two rows of both
  arrays.\<close>

function sort_inner ::
  "string list \<Rightarrow> string list \<Rightarrow> int \<Rightarrow> int \<Rightarrow> int \<Rightarrow> (string list \<times> string list) option" where
  "sort_inner names paths cnt i j =
     (if j < cnt then
        (case (rd names i, rd names j, rd paths i, rd paths j) of
           (Some name_i, Some name_j, Some path_i, Some path_j) \<Rightarrow>
             (if strcasecmp name_i name_j > 0 then
                sort_inner (names[nat i := name_j, nat j := name_i])
                  (paths[nat i := path_j, nat j := path_i]) cnt i (j + 1)
              else sort_inner names paths cnt i (j + 1))
         | _ \<Rightarrow> None)
      else Some (names, paths))"
  by pat_completeness auto
termination
  by (relation "measure (\<lambda>(names, paths, cnt, i, j). nat (cnt - j))") auto

declare sort_inner.simps [simp del]

function sort_outer ::
  "string list \<Rightarrow> string list \<Rightarrow> int \<Rightarrow> int \<Rightarrow> (string list \<times> string list) option" where
  "sort_outer names paths cnt i =
     (if i < cnt - 1 then
        (case sort_inner names paths cnt i (i + 1) of
           None \<Rightarrow> None
         | Some (names1, paths1) \<Rightarrow> sort_outer names1 paths1 cnt (i + 1))
      else Some (names, paths))"
  by pat_completeness auto
termination
  by (relation "measure (\<lambda>(names, paths, cnt, i). nat (cnt - i))") auto

declare sort_outer.simps [simp del]

text \<open>\<^verbatim>\<open>scan_directory\<close>: the count and the two arrays it has filled and sorted.\<close>

definition scan_directory ::
  "env \<Rightarrow> string \<Rightarrow> string list \<Rightarrow> string list \<Rightarrow> int \<Rightarrow> (string \<Rightarrow> bool)
     \<Rightarrow> (int \<times> string list \<times> string list) option" where
  "scan_directory e dir_path names paths max_entries filter_fn =
     (case dir_entries e dir_path of
        None \<Rightarrow> Some (0, names, paths)
      | Some entries \<Rightarrow>
          (case scan_entries dir_path entries names paths max_entries filter_fn 0 of
             None \<Rightarrow> None
           | Some (cnt, names1, paths1) \<Rightarrow>
               (case sort_outer names1 paths1 cnt 0 of
                  None \<Rightarrow> None
                | Some (names2, paths2) \<Rightarrow> Some (cnt, names2, paths2))))"

text \<open>\<^verbatim>\<open>scan_models\<close> and \<^verbatim>\<open>scan_cabs\<close>.\<close>

definition scan_models :: "env \<Rightarrow> 'm nam_instance \<Rightarrow> 'm nam_instance option" where
  "scan_models e i =
     (case scan_directory e (take (nat (MAX_PATH_LEN - 1)) (module_dir i @ ''/models''))
             (model_names i) (model_paths i) MAX_MODELS is_model_file of
        None \<Rightarrow> None
      | Some (cnt, names, paths) \<Rightarrow>
          Some (i\<lparr>model_count := cnt, model_names := names, model_paths := paths\<rparr>))"

definition scan_cabs :: "env \<Rightarrow> 'm nam_instance \<Rightarrow> 'm nam_instance option" where
  "scan_cabs e i =
     (case scan_directory e (take (nat (MAX_PATH_LEN - 1)) (module_dir i @ ''/cabs''))
             (cab_names i) (cab_paths i) MAX_CABS is_cab_file of
        None \<Rightarrow> None
      | Some (cnt, names, paths) \<Rightarrow>
          Some (i\<lparr>cab_count := cnt, cab_names := names, cab_paths := paths\<rparr>))"

text \<open>An entry that the \<^verbatim>\<open>readdir\<close> loop skips as hidden: its name starts with a dot.\<close>

definition hidden_entry :: "string \<Rightarrow> bool" where
  "hidden_entry d = (case d of [] \<Rightarrow> False | c # cs \<Rightarrow> c = CHR ''.'')"


section \<open>Loading a cabinet impulse response\<close>

text \<open>
  \<^verbatim>\<open>load_wav_ir\<close>. The file system and the parsing of the RIFF container are not modelled:
  \<open>wav_samples e path\<close> is the sequence of first-channel samples the parser extracts from
  the file, empty when the file cannot be opened or is rejected. The function stores at
  most \<open>max_samples\<close> of them at the front of \<open>out\<close> and returns how many.
\<close>

definition load_wav_ir :: "env \<Rightarrow> string \<Rightarrow> real list \<Rightarrow> int \<Rightarrow> int \<times> real list" where
  "load_wav_ir e path out max_samples =
     (let samples = take (nat max_samples) (wav_samples e path)
      in (int (length samples), samples @ drop (length samples) out))"

text \<open>
  \<^verbatim>\<open>load_cab\<close> in two parts, to name the state between them: \<open>install_cab\<close> is the
  assignments that attach the new IR and the new history (from \<^verbatim>\<open>inst->cab_ir = new_ir\<close> to
  \<^verbatim>\<open>inst->cab_hist_pos = 0\<close>), \<open>release_cab\<close> the two calls of \<^verbatim>\<open>free\<close> that follow.
\<close>

definition install_cab :: "env \<Rightarrow> 'm world \<Rightarrow> int \<Rightarrow> string \<Rightarrow> addr \<Rightarrow> int \<Rightarrow> 'm world" where
  "install_cab e w index path new_ir ir_len =
     (let i1 = (inst w)\<lparr>cab_ir := Some new_ir, cab_ir_len := ir_len, current_cab_index := index,
                         cab_name := path_to_name path MAX_NAME_LEN\<rparr>
      in case calloc (hist_alloc e) (heap w) (ir_len + FRAMES_PER_BLOCK) of
           (hist, h) \<Rightarrow> w\<lparr>inst := i1\<lparr>cab_history := hist, cab_hist_pos := 0\<rparr>, heap := h\<rparr>)"

definition release_cab :: "'m world \<Rightarrow> addr option \<Rightarrow> addr option \<Rightarrow> 'm world option" where
  "release_cab w old_ir old_hist =
     (case free (heap w) old_ir of
        None \<Rightarrow> None
      | Some h1 \<Rightarrow> (case free h1 old_hist of None \<Rightarrow> None | Some h2 \<Rightarrow> Some (w\<lparr>heap := h2\<rparr>)))"

definition load_cab :: "env \<Rightarrow> 'm world \<Rightarrow> int \<Rightarrow> 'm world option" where
  "load_cab e w index =
     (if index < 0 \<or> index \<ge> cab_count (inst w) then Some w
      else
        (case calloc (ir_alloc e) (heap w) MAX_IR_LEN of
           (None, h1) \<Rightarrow> Some w
         | (Some new_ir, h1) \<Rightarrow>
             (case rd (cab_paths (inst w)) index of
                None \<Rightarrow> None
              | Some path \<Rightarrow>
                  (case deref h1 new_ir of
                     None \<Rightarrow> None
                   | Some buf \<Rightarrow>
                       (case load_wav_ir e path buf MAX_IR_LEN of
                          (ir_len, buf1) \<Rightarrow>
                            (let h2 = h1[new_ir := Some buf1] in
                             if ir_len \<le> 0 then
                               (case free h2 (Some new_ir) of
                                  None \<Rightarrow> None
                                | Some h3 \<Rightarrow> Some (w\<lparr>heap := h3\<rparr>))
                             else
                               release_cab (install_cab e (w\<lparr>heap := h2\<rparr>) index path new_ir ir_len)
                                 (cab_ir (inst w)) (cab_history (inst w))))))))"


section \<open>Loading a model in the background\<close>

text \<open>
  \<^verbatim>\<open>load_model_async\<close>. The new thread is appended to the loader threads of the world, at
  its first point. The result of \<^verbatim>\<open>pthread_create\<close> is not looked at by the code: when no
  thread starts, the flag stays set.
\<close>

definition load_model_async :: "env \<Rightarrow> 'm world \<Rightarrow> string \<Rightarrow> 'm world" where
  "load_model_async e w path =
     (if loading (inst w) then w
      else
        w\<lparr>inst := (inst w)\<lparr>model_path := take (nat (MAX_PATH_LEN - 1)) path,
                            model_name := path_to_name path MAX_NAME_LEN,
                            loading := True\<rparr>,
          loaders := (if thread_start e then loaders w @ [Creating] else loaders w)\<rparr>)"

text \<open>
  \<^verbatim>\<open>model_loader_thread\<close>, one atomic action at a time: loader \<open>k\<close> calls
  \<^verbatim>\<open>CreateFromFile\<close> on \<^verbatim>\<open>inst->model_path\<close> (\<open>create\<close> is the library), stores the result
  into \<^verbatim>\<open>pending_model\<close>, stores \<open>false\<close> into \<^verbatim>\<open>loading\<close>. \<^const>\<open>None\<close> when loader \<open>k\<close>
  does not exist or has returned.
\<close>

definition model_loader_thread :: "(string \<Rightarrow> 'm option) \<Rightarrow> 'm world \<Rightarrow> nat \<Rightarrow> 'm world option" where
  "model_loader_thread create w k =
     (if k < length (loaders w) then
        (case loaders w ! k of
           Creating \<Rightarrow>
             Some (w\<lparr>loaders := (loaders w)[k := Publishing (create (model_path (inst w)))]\<rparr>)
         | Publishing new_model \<Rightarrow>
             Some (w\<lparr>inst := (inst w)\<lparr>pending_model := new_model\<rparr>,
                     loaders := (loaders w)[k := Clearing]\<rparr>)
         | Clearing \<Rightarrow>
             Some (w\<lparr>inst := (inst w)\<lparr>loading := False\<rparr>,
                     loaders := (loaders w)[k := Returned]\<rparr>)
         | Returned \<Rightarrow> None)
      else None)"

section \<open>The plugin interface\<close>

text \<open>
  \<^verbatim>\<open>atoi\<close> of the C library: white space, an optional sign, decimal digits. A value
  outside \<^verbatim>\<open>int\<close> is undefined in C; the model gives the number written.
\<close>

definition isspace :: "char \<Rightarrow> bool" where
  "isspace c = (c \<in> set [CHR '' '', CHR 0x09, CHR 0x0A, CHR 0x0B, CHR 0x0C, CHR 0x0D])"

definition isdigit :: "char \<Rightarrow> bool" where
  "isdigit c = (48 \<le> (of_char c :: int) \<and> (of_char c :: int) \<le> 57)"

fun atoi_digits :: "string \<Rightarrow> int \<Rightarrow> int" where
  "atoi_digits [] acc = acc"
| "atoi_digits (c # cs) acc =
     (if isdigit c then atoi_digits cs (acc * 10 + (of_char c - 48)) else acc)"

definition atoi :: "string \<Rightarrow> int" where
  "atoi s =
     (case dropWhile isspace s of
        [] \<Rightarrow> 0
      | c # cs \<Rightarrow>
          if c = CHR ''-'' then - atoi_digits cs 0
          else if c = CHR ''+'' then atoi_digits cs 0
          else atoi_digits (c # cs) 0)"

text \<open>\<^verbatim>\<open>v2_create_instance\<close>; the result is \<^const>\<open>None\<close> for the null pointer. The heap of the
  new world holds no buffer yet.\<close>

definition v2_create_instance :: "env \<Rightarrow> string \<Rightarrow> 'm world option option" where
  "v2_create_instance e dir =
     (if \<not> inst_alloc e then Some None
      else
        (case scan_models e (fresh_instance dir) of
           None \<Rightarrow> None
         | Some i1 \<Rightarrow>
             (case scan_cabs e i1 of
                None \<Rightarrow> None
              | Some i2 \<Rightarrow>
                  (let w2 = \<lparr>inst = i2, heap = [], loaders = []\<rparr>
                   in case (if model_count i2 > 0 then
                              (case rd (model_paths i2) 0 of
                                 None \<Rightarrow> None
                               | Some path \<Rightarrow>
                                   Some (load_model_async e
                                           (w2\<lparr>inst := i2\<lparr>current_model_index := 0\<rparr>\<rparr>) path))
                            else Some w2) of
                        None \<Rightarrow> None
                      | Some w3 \<Rightarrow>
                          (if cab_count (inst w3) > 0 then
                             (case load_cab e w3 0 of None \<Rightarrow> None | Some w4 \<Rightarrow> Some (Some w4))
                           else Some (Some w3))))))"

text \<open>\<^verbatim>\<open>v2_set_param\<close>; a null instance, key or value is \<^const>\<open>None\<close>.\<close>

definition v2_set_param ::
  "env \<Rightarrow> 'm world option \<Rightarrow> string option \<Rightarrow> string option \<Rightarrow> 'm world option option" where
  "v2_set_param e instance key val =
     (case (instance, key, val) of
        (Some w, Some k, Some v) \<Rightarrow>
          if k = ''input_level'' then
            (let level = clampf (atof e v) 0 1
             in Some (Some (w\<lparr>inst := (inst w)\<lparr>input_level := level,
                                                input_gain := knob_to_gain level\<rparr>\<rparr>)))
          else if k = ''output_level'' then
            (let level = clampf (atof e v) 0 1
             in Some (Some (w\<lparr>inst := (inst w)\<lparr>output_level := level,
                                                output_gain := knob_to_gain level\<rparr>\<rparr>)))
          else if k = ''model_index'' then
            (let idx = atoi v in
             if idx \<ge> 0 \<and> idx < model_count (inst w) \<and> idx \<noteq> current_model_index (inst w) then
               (case rd (model_paths (inst w)) idx of
                  None \<Rightarrow> None
                | Some path \<Rightarrow>
                    Some (Some (load_model_async e
                                  (w\<lparr>inst := (inst w)\<lparr>current_model_index := idx\<rparr>\<rparr>) path)))
             else Some (Some w))
          else if k = ''model'' then Some (Some (load_model_async e w v))
          else if k = ''cab_index'' then
            (let idx = atoi v in
             if idx \<ge> 0 \<and> idx < cab_count (inst w) \<and> idx \<noteq> current_cab_index (inst w) then
               (case load_cab e w idx of None \<Rightarrow> None | Some w1 \<Rightarrow> Some (Some w1))
             else Some (Some w))
          else if k = ''cab_bypass'' then
            Some (Some (w\<lparr>inst := (inst w)\<lparr>cab_bypass := (atoi v \<noteq> 0)\<rparr>\<rparr>))
          else Some (Some w)
      | _ \<Rightarrow> Some instance)"

text \<open>The text of an \<^verbatim>\<open>int\<close> under \<^verbatim>\<open>%d\<close>.\<close>

function fmt_nat :: "nat \<Rightarrow> string" where
  "fmt_nat n = (if n < 10 then [''0123456789'' ! n] else fmt_nat (n div 10) @ [''0123456789'' ! (n mod 10)])"
  by pat_completeness auto
termination
  by (relation "measure (\<lambda>n. n)") auto

declare fmt_nat.simps [simp del]

definition fmt_d :: "int \<Rightarrow> string" where
  "fmt_d i = (if i < 0 then ''-'' @ fmt_nat (nat (- i)) else fmt_nat (nat i))"

text \<open>
  \<^verbatim>\<open>snprintf(buf + written, buf_len - written, ...)\<close> on the text \<open>buf\<close> that the buffer
  holds: the new text goes behind the first \<open>written\<close> characters, cut to the size less
  one, and the length of the whole text is added to \<open>written\<close>. A size of 0 writes nothing;
  a negative one converts to a huge \<^verbatim>\<open>size_t\<close>, and the write is not bounded any more.
\<close>

definition snprintf_at :: "string \<Rightarrow> int \<Rightarrow> int \<Rightarrow> string \<Rightarrow> (string \<times> int) option" where
  "snprintf_at buf written buf_len txt =
     (if buf_len - written < 0 then None
      else if buf_len - written = 0 then Some (buf, written + int (length txt))
      else Some (take (nat written) buf @ take (nat (buf_len - written - 1)) txt,
                 written + int (length txt)))"

text \<open>The loop of \<^verbatim>\<open>v2_get_param\<close> that writes the entries of a list.\<close>

function list_entries ::
  "string list \<Rightarrow> int \<Rightarrow> string \<Rightarrow> int \<Rightarrow> int \<Rightarrow> int \<Rightarrow> (string \<times> int) option" where
  \<open>list_entries names cnt buf written buf_len i =
     (if i < cnt \<and> written < buf_len - 40 then
        (case (if i > 0 then snprintf_at buf written buf_len '','' else Some (buf, written)) of
           None \<Rightarrow> None
         | Some (buf1, written1) \<Rightarrow>
             (case rd names i of
                None \<Rightarrow> None
              | Some name \<Rightarrow>
                  (case snprintf_at buf1 written1 buf_len
                          (''{"label":"'' @ name @ ''","index":'' @ fmt_d i @ ''}'') of
                     None \<Rightarrow> None
                   | Some (buf2, written2) \<Rightarrow>
                       list_entries names cnt buf2 written2 buf_len (i + 1))))
      else Some (buf, written))\<close>
  by pat_completeness auto
termination
  by (relation "measure (\<lambda>(names, cnt, buf, written, buf_len, i). nat (cnt - i))") auto

declare list_entries.simps [simp del]

definition list_param :: "string list \<Rightarrow> int \<Rightarrow> string \<Rightarrow> int \<Rightarrow> (string \<times> int) option" where
  "list_param names cnt buf buf_len =
     (case snprintf_at buf 0 buf_len ''['' of
        None \<Rightarrow> None
      | Some (buf1, written1) \<Rightarrow>
          (case list_entries names cnt buf1 written1 buf_len 0 of
             None \<Rightarrow> None
           | Some (buf2, written2) \<Rightarrow> snprintf_at buf2 written2 buf_len '']''))"

definition ui_hierarchy :: string where
  \<open>ui_hierarchy =
     ''{'' @
       ''"modes":null,'' @
       ''"levels":{'' @
         ''"root":{'' @
           ''"label":"NAM",'' @
           ''"children":null,'' @
           ''"knobs":["input_level","output_level"],'' @
           ''"params":['' @
             ''{"key":"input_level","label":"Input"},'' @
             ''{"key":"output_level","label":"Output"},'' @
             ''{"key":"cab_bypass","label":"Cab Bypass"},'' @
             ''{"level":"models","label":"Choose Model"},'' @
             ''{"level":"cabs","label":"Choose Cabinet"}'' @
           '']'' @
         ''},'' @
         ''"models":{'' @
           ''"label":"Model",'' @
           ''"items_param":"model_list",'' @
           ''"select_param":"model_index",'' @
           ''"children":null,'' @
           ''"knobs":[],'' @
           ''"params":[]'' @
         ''},'' @
         ''"cabs":{'' @
           ''"label":"Cabinet",'' @
           ''"items_param":"cab_list",'' @
           ''"select_param":"cab_index",'' @
           ''"children":null,'' @
           ''"knobs":[],'' @
           ''"params":[]'' @
         ''}'' @
       ''}'' @
     ''}''\<close>

text \<open>
  \<^verbatim>\<open>v2_get_param\<close>: the instance (the two list keys scan the directory again), the text in
  the buffer and the returned number. A null instance, key or buffer is \<^const>\<open>None\<close>.
\<close>

definition v2_get_param ::
  "env \<Rightarrow> 'm world option \<Rightarrow> string option \<Rightarrow> string option \<Rightarrow> int
     \<Rightarrow> ('m world option \<times> string option \<times> int) option" where
  "v2_get_param e instance key buf buf_len =
     (case (instance, key, buf) of
        (Some w, Some k, Some b) \<Rightarrow>
          (let scalar = (\<lambda>txt. case snprintf_at b 0 buf_len txt of
                                None \<Rightarrow> None
                              | Some (b1, n) \<Rightarrow> Some (Some w, Some b1, n))
           in
           if k = ''input_level'' then scalar (fmt_2f e (input_level (inst w)))
           else if k = ''output_level'' then scalar (fmt_2f e (output_level (inst w)))
           else if k = ''model_name'' then
             scalar (if model_name (inst w) \<noteq> [] then model_name (inst w) else ''(none)'')
           else if k = ''model_count'' then scalar (fmt_d (model_count (inst w)))
           else if k = ''model_index'' then scalar (fmt_d (current_model_index (inst w)))
           else if k = ''model_list'' then
             (case scan_models e (inst w) of
                None \<Rightarrow> None
              | Some i1 \<Rightarrow>
                  (case list_param (model_names i1) (model_count i1) b buf_len of
                     None \<Rightarrow> None
                   | Some (b1, n) \<Rightarrow> Some (Some (w\<lparr>inst := i1\<rparr>), Some b1, n)))
           else if k = ''loading'' then scalar (fmt_d (if loading (inst w) then 1 else 0))
           else if k = ''cab_name'' then
             scalar (if cab_name (inst w) \<noteq> [] then cab_name (inst w) else ''(none)'')
           else if k = ''cab_count'' then scalar (fmt_d (cab_count (inst w)))
           else if k = ''cab_index'' then scalar (fmt_d (current_cab_index (inst w)))
           else if k = ''cab_bypass'' then scalar (fmt_d (if cab_bypass (inst w) then 1 else 0))
           else if k = ''cab_list'' then
             (case scan_cabs e (inst w) of
                None \<Rightarrow> None
              | Some i1 \<Rightarrow>
                  (case list_param (cab_names i1) (cab_count i1) b buf_len of
                     None \<Rightarrow> None
                   | Some (b1, n) \<Rightarrow> Some (Some (w\<lparr>inst := i1\<rparr>), Some b1, n)))
           else if k = ''ui_hierarchy'' then scalar ui_hierarchy
           else Some (instance, buf, - 1))
      | _ \<Rightarrow> Some (instance, buf, - 1))"

section \<open>The threads together\<close>

text \<open>
  One step of the whole: a loader thread performs its next action, the audio thread runs
  one block, or the controller sets or gets a parameter. Loads and stores of the shared
  fields are interleaved in program order; a call of the controller is one step, as no
  loader reads \<^verbatim>\<open>model_path\<close> or writes before \<^verbatim>\<open>loading\<close> is set. The file system, the
  allocator and the library may answer differently at every step.
\<close>

inductive step :: "'m world \<Rightarrow> 'm world \<Rightarrow> bool" where
  loader: "model_loader_thread create w k = Some w' \<Longrightarrow> step w w'"
| audio: "v2_process_block proc (Some w) audio_inout frames = Some (Some w', out) \<Longrightarrow> step w w'"
| set_param: "v2_set_param e (Some w) key val = Some (Some w') \<Longrightarrow> step w w'"
| get_param: "v2_get_param e (Some w) key buf buf_len = Some (Some w', buf', n) \<Longrightarrow> step w w'"

text \<open>The worlds that an instance can be in: after \<^verbatim>\<open>v2_create_instance\<close>, and after any
  number of steps.\<close>

inductive reachable :: "'m world \<Rightarrow> bool" where
  created: "v2_create_instance e dir = Some (Some w) \<Longrightarrow> reachable w"
| stepped: "reachable w \<Longrightarrow> step w w' \<Longrightarrow> reachable w'"

text \<open>The loads in flight: the loader threads that have not yet cleared the flag.\<close>

definition in_flight :: "'m world \<Rightarrow> nat" where
  "in_flight w = length (filter (\<lambda>l. l \<noteq> Returned) (loaders w))"

section \<open>Example states\<close>




text \<open>A file system with one directory of models, listed in some order, and nothing else.\<close>

definition example_env :: env where
  "example_env =
     \<lparr> dir_entries = (\<lambda>d. if d = ''/data/nam/models''
                          then Some [''.'', ''c.txt'', ''B.nam'', ''..'', ''.hidden.nam'', ''a.NAM'']
                          else None),
       wav_samples = (\<lambda>p. []),
       inst_alloc = True, ir_alloc = True, hist_alloc = True, thread_start = True,
       atof = (\<lambda>s. 0), fmt_2f = (\<lambda>x. ''0.00'') \<rparr>"

text \<open>A world around \<^const>\<open>cab_example\<close>: one cabinet file is known, its IR and its history are
  the two buffers of the heap.\<close>

definition cab_world :: "unit world" where
  "cab_world =
     \<lparr> inst = cab_example\<lparr>cab_count := 1,
                cab_paths := (cab_paths cab_example)[0 := ''/data/nam/cabs/4x12.wav'']\<rparr>,
       heap = [Some [2, 3], Some (replicate 130 0)],
       loaders = [] \<rparr>"
section \<open>Verification\<close>

section \<open>Pass-through without a model\<close>

text \<open>
  C1. When the active model is null and the pending-model slot is null,
  \<^verbatim>\<open>process_block\<close> returns with every sample of the interleaved stereo buffer unchanged
  (and the instance and the heap unchanged), for every frame count and every buffer.
\<close>

theorem process_block_passthrough:
  assumes "model (inst w) = None" and "pending_model (inst w) = None"
  shows "v2_process_block proc (Some w) audio_inout frames = Some (Some w, audio_inout)"
  using assms by (simp add: v2_process_block_def activate_pending_def)

theorem process_block_passthrough_witness:
  "model (inst \<lparr>inst = fresh_instance ''/data/nam'', heap = [], loaders = []\<rparr>) = (None :: unit option)
   \<and> pending_model (inst \<lparr>inst = fresh_instance ''/data/nam'', heap = [], loaders = []\<rparr>)
       = (None :: unit option)
   \<and> v2_process_block (\<lambda>(m :: unit) xs ys n. Some (m, take n xs))
         (Some \<lparr>inst = fresh_instance ''/data/nam'', heap = [], loaders = []\<rparr>)
         [1, - 2, 3, 32767] 2
       = Some (Some \<lparr>inst = fresh_instance ''/data/nam'', heap = [], loaders = []\<rparr>,
               [1, - 2, 3, 32767])"
proof -
  let ?w = "\<lparr>inst = fresh_instance ''/data/nam'', heap = [], loaders = []\<rparr> :: unit world"
  have a: "model (inst ?w) = None" and b: "pending_model (inst ?w) = None"
    by (simp_all add: fresh_instance_def)
  from a b process_block_passthrough [OF a b] show ?thesis
    by blast
qed
section \<open>The convolution engine is a direct-form FIR filter\<close>






















section \<open>The audio pipeline with an active model\<close>



















section \<open>Scanning a directory\<close>

lemma scan_entries_filter:
  "scan_entries dir es names paths mx f c =
   scan_entries dir (filter (\<lambda>d. \<not> hidden_entry d \<and> f d) es) names paths mx f c"
proof (induction es arbitrary: names paths c)
  case Nil
  then show ?case by simp
next
  case (Cons d es)
  show ?case
  proof (cases "c < mx")
    case False
    then show ?thesis
      by (cases "filter (\<lambda>d. \<not> hidden_entry d \<and> f d) (d # es)") simp_all
  next
    case True
    then show ?thesis
      using Cons.IH by (auto simp: hidden_entry_def split: option.splits list.splits)
  qed
qed

lemma mset_pair_cases:
  assumes "mset xs = {#a, b#}"
  shows "xs = [a, b] \<or> xs = [b, a]"
proof (cases xs)
  case Nil
  with assms show ?thesis by simp
next
  case (Cons x ys)
  with assms have "add_mset x (mset ys) = add_mset a {#b#}" by simp
  then show ?thesis
    unfolding Cons by (auto simp: add_eq_conv_diff)
qed

lemma list_two_front:
  assumes "2 \<le> length xs"
  shows "xs = xs ! 0 # xs ! 1 # drop 2 xs"
proof -
  obtain a b r where "xs = a # b # r"
    using assms by (cases xs; cases "tl xs") auto
  then show ?thesis by simp
qed

lemma scan_two_sorted:
  assumes "2 \<le> length names" "2 \<le> length paths"
  shows "scan_entries dir [''a.NAM'', ''B.nam''] names paths MAX_MODELS is_model_file 0 \<bind>
           (\<lambda>(cnt, n1, p1). sort_outer n1 p1 cnt 0 \<bind> (\<lambda>(n2, p2). Some (cnt, n2, p2)))
         = Some (2, ''a'' # ''B'' # drop 2 names,
                 snprintf_path MAX_PATH_LEN dir ''a.NAM'' # snprintf_path MAX_PATH_LEN dir ''B.nam'' # drop 2 paths)"
proof -
  obtain n0 n1 nr where n: "names = n0 # n1 # nr"
    using assms(1) by (cases names; cases "tl names") auto
  obtain p0 p1 pr where p: "paths = p0 # p1 # pr"
    using assms(2) by (cases paths; cases "tl paths") auto
  show ?thesis
    unfolding n p
    apply (simp add: is_model_file_def tolower_def wr_def MAX_MODELS_def MAX_NAME_LEN_def
        path_to_name_def)
    apply (simp add: rd_def sort_outer.simps[of _ _ 2 0] sort_outer.simps[of _ _ 2 1]
        sort_inner.simps[of _ _ 2 0 1] sort_inner.simps[of _ _ 2 0 2] tolower_def)
    done
qed

lemma scan_two_unsorted:
  assumes "2 \<le> length names" "2 \<le> length paths"
  shows "scan_entries dir [''B.nam'', ''a.NAM''] names paths MAX_MODELS is_model_file 0 \<bind>
           (\<lambda>(cnt, n1, p1). sort_outer n1 p1 cnt 0 \<bind> (\<lambda>(n2, p2). Some (cnt, n2, p2)))
         = Some (2, ''a'' # ''B'' # drop 2 names,
                 snprintf_path MAX_PATH_LEN dir ''a.NAM'' # snprintf_path MAX_PATH_LEN dir ''B.nam'' # drop 2 paths)"
proof -
  obtain n0 n1 nr where n: "names = n0 # n1 # nr"
    using assms(1) by (cases names; cases "tl names") auto
  obtain p0 p1 pr where p: "paths = p0 # p1 # pr"
    using assms(2) by (cases paths; cases "tl paths") auto
  show ?thesis
    unfolding n p
    apply (simp add: is_model_file_def tolower_def wr_def MAX_MODELS_def MAX_NAME_LEN_def
        path_to_name_def)
    apply (simp add: rd_def sort_outer.simps[of _ _ 2 0] sort_outer.simps[of _ _ 2 1]
        sort_inner.simps[of _ _ 2 0 1] sort_inner.simps[of _ _ 2 0 2] tolower_def)
    done
qed

lemma scan_directory_bind:
  "scan_directory e dir names paths mx f =
     (case dir_entries e dir of
        None \<Rightarrow> Some (0, names, paths)
      | Some es \<Rightarrow>
          scan_entries dir (filter (\<lambda>d. \<not> hidden_entry d \<and> f d) es) names paths mx f 0 \<bind>
            (\<lambda>(cnt, n1, p1). sort_outer n1 p1 cnt 0 \<bind> (\<lambda>(n2, p2). Some (cnt, n2, p2))))"
proof (cases "dir_entries e dir")
  case None
  then show ?thesis by (simp add: scan_directory_def)
next
  case (Some es)
  have f: "scan_entries dir (filter (\<lambda>d. \<not> hidden_entry d \<and> f d) es) names paths mx f 0
         = scan_entries dir es names paths mx f 0"
    by (rule scan_entries_filter[symmetric])
  show ?thesis
    using Some by (simp add: scan_directory_def f split: option.splits prod.splits)
qed

text \<open>
  C8. For a directory whose entries, apart from \<open>.\<close> and \<open>..\<close>, are \<open>B.nam\<close>, \<open>a.NAM\<close>,
  \<open>.hidden.nam\<close> and \<open>c.txt\<close>, in whatever order \<^verbatim>\<open>readdir\<close> gives them, scanning with
  the model-file predicate yields exactly two entries, named \<open>a\<close> and \<open>B\<close> in this order,
  with the paths of \<open>a.NAM\<close> and \<open>B.nam\<close>; the other rows of the arrays are untouched.
\<close>

theorem scan_directory_example:
  assumes dir: "dir_entries e dir = Some es"
    and es: "mset (filter (\<lambda>d. d \<noteq> ''.'' \<and> d \<noteq> ''..'') es)
               = mset [''B.nam'', ''a.NAM'', ''.hidden.nam'', ''c.txt'']"
    and len: "2 \<le> length names" "2 \<le> length paths"
  shows "scan_directory e dir names paths MAX_MODELS is_model_file
         = Some (2, ''a'' # ''B'' # drop 2 names,
                 snprintf_path MAX_PATH_LEN dir ''a.NAM'' # snprintf_path MAX_PATH_LEN dir ''B.nam''
                   # drop 2 paths)"
proof -
  let ?keep = "\<lambda>d. \<not> hidden_entry d \<and> is_model_file d"
  have "filter ?keep es = filter ?keep (filter (\<lambda>d. d \<noteq> ''.'' \<and> d \<noteq> ''..'') es)"
    by (auto simp: hidden_entry_def intro!: filter_cong)
  then have "mset (filter ?keep es) = mset (filter ?keep (filter (\<lambda>d. d \<noteq> ''.'' \<and> d \<noteq> ''..'') es))"
    by simp
  also have "\<dots> = filter_mset ?keep (mset (filter (\<lambda>d. d \<noteq> ''.'' \<and> d \<noteq> ''..'') es))"
    by (rule mset_filter)
  also have "\<dots> = filter_mset ?keep (mset [''B.nam'', ''a.NAM'', ''.hidden.nam'', ''c.txt''])"
    by (simp only: es)
  also have "\<dots> = {#''a.NAM'', ''B.nam''#}"
    by (simp add: hidden_entry_def is_model_file_def tolower_def)
  finally have "filter ?keep es = [''a.NAM'', ''B.nam''] \<or> filter ?keep es = [''B.nam'', ''a.NAM'']"
    by (rule mset_pair_cases)
  then show ?thesis
  proof
    assume "filter ?keep es = [''a.NAM'', ''B.nam'']"
    then show ?thesis
      unfolding scan_directory_bind using dir scan_two_sorted[OF len, of dir] by simp
  next
    assume "filter ?keep es = [''B.nam'', ''a.NAM'']"
    then show ?thesis
      unfolding scan_directory_bind using dir scan_two_unsorted[OF len, of dir] by simp
  qed
qed

theorem scan_directory_example_witness:
  "scan_directory example_env ''/data/nam/models'' (replicate 256 []) (replicate 256 [])
       MAX_MODELS is_model_file
     = Some (2, ''a'' # ''B'' # replicate 254 [],
             ''/data/nam/models/a.NAM'' # ''/data/nam/models/B.nam'' # replicate 254 [])"
  using scan_directory_example
    [of example_env "''/data/nam/models''"
        "[''.'', ''c.txt'', ''B.nam'', ''..'', ''.hidden.nam'', ''a.NAM'']"
        "replicate 256 []" "replicate 256 []"]
  by (simp add: example_env_def snprintf_path_def MAX_PATH_LEN_def)
section \<open>Replacing the cabinet impulse response\<close>

lemma deref_append_dead: "deref (h @ [None]) a = deref h a"
  by (auto simp: deref_def nth_append less_Suc_eq)

text \<open>
  C6. For an index in range whose file fails to decode (the WAV reader returns 0),
  \<^verbatim>\<open>load_cab\<close> returns with the instance unchanged: \<^verbatim>\<open>cab_ir\<close>, \<^verbatim>\<open>cab_ir_len\<close>,
  \<^verbatim>\<open>cab_history\<close>, \<^verbatim>\<open>cab_hist_pos\<close>, \<^verbatim>\<open>current_cab_index\<close>, \<^verbatim>\<open>cab_name\<close> and every other
  field keep their values, and so does every buffer of the heap.
\<close>

theorem load_cab_decode_failure:
  assumes "0 \<le> index" "index < cab_count (inst w)"
    and "cab_count (inst w) \<le> int (length (cab_paths (inst w)))"
    and "\<forall>out. fst (load_wav_ir e (cab_paths (inst w) ! nat index) out MAX_IR_LEN) = 0"
  shows "\<exists>w'. load_cab e w index = Some w'
           \<and> inst w' = inst w
           \<and> (\<forall>a. deref (heap w') a = deref (heap w) a)
           \<and> loaders w' = loaders w"
proof (cases "ir_alloc e")
  case False
  then show ?thesis using assms by (simp add: load_cab_def calloc_def)
next
  case True
  let ?path = "cab_paths (inst w) ! nat index"
  let ?buf = "replicate (nat MAX_IR_LEN) (0 :: real)"
  obtain buf1 where lw: "load_wav_ir e ?path ?buf MAX_IR_LEN = (0, buf1)"
    using assms(4) by (cases "load_wav_ir e ?path ?buf MAX_IR_LEN") (auto dest: spec[of _ ?buf])
  have rd: "rd (cab_paths (inst w)) index = Some ?path"
    using assms by (simp add: rd_def)
  have "load_cab e w index = Some (w\<lparr>heap := heap w @ [None]\<rparr>)"
    using True assms(1,2) rd lw
    by (simp add: load_cab_def calloc_def deref_def free_def)
  then show ?thesis by (simp add: deref_append_dead)
qed


lemma free_live:
  "deref h a = Some b \<Longrightarrow> free h (Some a) = Some (h[a := None])"
  by (simp add: free_def)


lemma deref_append:
  "deref (h @ [v]) c = (if c = length h then v else deref h c)"
  by (auto simp: deref_def nth_append)


theorem load_cab_decode_failure_witness:
  "\<exists>w'. load_cab example_env cab_world 0 = Some w'
         \<and> inst w' = inst cab_world
         \<and> (\<forall>a. deref (heap w') a = deref (heap cab_world) a)
         \<and> loaders w' = loaders cab_world"
  using load_cab_decode_failure[of 0 cab_world example_env]
  by (simp add: cab_world_def cab_example_def fresh_instance_def example_env_def load_wav_ir_def
      MAX_CABS_def)


end
